theory Spec2Isabelle
  imports Complex_Main
begin

section \<open>Scalars and arrays\<close>

text \<open>
  The engine works on numpy arrays of 64-bit floats. Rounding and overflow are outside
  this model: a finite float is a \<open>real\<close> and the arithmetic on finite values is exact.
  What the model does keep is that float division never raises: dividing by zero gives an
  infinity or a NaN. Such a value is \<open>NonFinite\<close> (the model does not tell the three
  apart), and it is absorbing for the arithmetic of this program: no path of the source
  divides by a non-finite value.
\<close>

datatype fval = Fin real | NonFinite

fun fadd :: "fval \<Rightarrow> fval \<Rightarrow> fval" where
  "fadd (Fin a) (Fin b) = Fin (a + b)"
| "fadd _ _ = NonFinite"

fun fsub :: "fval \<Rightarrow> fval \<Rightarrow> fval" where
  "fsub (Fin a) (Fin b) = Fin (a - b)"
| "fsub _ _ = NonFinite"

fun fmul :: "fval \<Rightarrow> fval \<Rightarrow> fval" where
  "fmul (Fin a) (Fin b) = Fin (a * b)"
| "fmul _ _ = NonFinite"

fun fdiv :: "fval \<Rightarrow> fval \<Rightarrow> fval" where
  "fdiv (Fin a) (Fin b) = (if b = 0 then NonFinite else Fin (a / b))"
| "fdiv _ _ = NonFinite"

fun fsqrt :: "fval \<Rightarrow> fval" where
  "fsqrt (Fin a) = (if a < 0 then NonFinite else Fin (sqrt a))"
| "fsqrt NonFinite = NonFinite"

fun is_fin :: "fval \<Rightarrow> bool" where
  "is_fin (Fin a) = True"
| "is_fin NonFinite = False"

text \<open>
  A two-dimensional array of shape \<open>(M, N)\<close> is its row count \<open>M\<close> and the list of its
  \<open>N\<close> columns, each a list of \<open>M\<close> entries: the entry \<open>[r, c]\<close> of the numpy array is
  \<open>cols A ! c ! r\<close>. The column \<open>A[:, c]\<close> is \<open>cols A ! c\<close>, and the slice \<open>A[i:, c]\<close> is
  \<open>drop i (cols A ! c)\<close>.
\<close>

record 'a array2 =
  nrows :: nat
  cols :: "'a list list"

definition ncols :: "'a array2 \<Rightarrow> nat" where
  "ncols X = length (cols X)"

definition shape :: "'a array2 \<Rightarrow> nat \<times> nat" where
  "shape X = (nrows X, ncols X)"

definition entry :: "'a array2 \<Rightarrow> nat \<Rightarrow> nat \<Rightarrow> 'a" where
  "entry X r c = cols X ! c ! r"

definition wf_array2 :: "'a array2 \<Rightarrow> bool" where
  "wf_array2 X = list_all (\<lambda>c. length c = nrows X) (cols X)"

definition fin_array :: "real array2 \<Rightarrow> fval array2" where
  "fin_array X = \<lparr>nrows = nrows X, cols = map (map Fin) (cols X)\<rparr>"

section \<open>Numeric utilities\<close>

text \<open>The inner product \<open>u.T @ v\<close> of two one-dimensional arrays of the same length.\<close>

definition dot :: "real list \<Rightarrow> real list \<Rightarrow> real" where
  "dot u v = sum_list (map2 (*) u v)"

definition fdot :: "fval list \<Rightarrow> fval list \<Rightarrow> fval" where
  "fdot u v = foldl fadd (Fin 0) (map2 fmul u v)"

text \<open>
  Modelled from the spec: \<open>linalg.utils.l2_norm\<close> (the module is imported by the source
  and is not part of it), the Euclidean norm \<open>sqrt(sum(v_i^2))\<close>.
\<close>

definition l2_norm :: "real list \<Rightarrow> real" where
  "l2_norm v = sqrt (sum_list (map (\<lambda>t. t * t) v))"

definition fl2_norm :: "fval list \<Rightarrow> fval" where
  "fl2_norm v = fsqrt (foldl fadd (Fin 0) (map (\<lambda>t. fmul t t) v))"

text \<open>
  Modelled from the spec: \<open>linalg.utils.sign\<close>, which returns +1 if \<open>x \<ge> 0\<close>, else -1.
\<close>

definition sign :: "real \<Rightarrow> real" where
  "sign t = (if 0 \<le> t then 1 else - 1)"

text \<open>
  Modelled from the spec: \<open>linalg.utils.basis_vec\<close>, the i-th standard basis vector in
  n dimensions.
\<close>

definition basis_vec :: "nat \<Rightarrow> nat \<Rightarrow> real list" where
  "basis_vec i n = map (\<lambda>k. if k = i then 1 else 0) [0..<n]"

text \<open>
  Modelled from the spec: \<open>linalg.utils.projection\<close>, the vector projection of u onto v,
  \<open>(u.T v / v.T v) * v\<close>.
\<close>

definition projection :: "fval list \<Rightarrow> fval list \<Rightarrow> fval list" where
  "projection u v = map (fmul (fdiv (fdot u v) (fdot v v))) v"

text \<open>
  Modelled from the spec: \<open>linalg.utils.normalize\<close>, which scales v to unit L2 norm.
\<close>

definition normalize :: "fval list \<Rightarrow> fval list" where
  "normalize v = map (\<lambda>t. fdiv t (fl2_norm v)) v"

text \<open>
  \<open>np.isclose(a, 0)\<close> with numpy's default tolerances \<open>rtol = 1e-5\<close> and \<open>atol = 1e-8\<close>
  is \<open>|a - 0| \<le> atol + rtol * |0|\<close>.
\<close>

definition isclose0 :: "real \<Rightarrow> bool" where
  "isclose0 a = (\<bar>a\<bar> \<le> 1 / 10 ^ 8)"

section \<open>The QR engine\<close>

datatype rhs = B1 "real list" | B2 "real array2"

datatype sol = X0 fval | X1 "fval list" | X2 "fval array2"

datatype error = ValueError | IndexError | AttributeError

text \<open>
  The attributes \<open>A\<close>, \<open>Q\<close>, \<open>R\<close>, \<open>b\<close>, \<open>y\<close> and \<open>x\<close> of the engine do not exist until a
  method assigns them: \<open>None\<close>. Every array the engine stores is a fresh copy
  (\<open>np.array(...)\<close> copies), so the fields hold values.
\<close>

record engine =
  backup :: "real array2"
  reduce :: bool
  self_A :: "fval array2 option"
  self_Q :: "fval array2 option"
  self_R :: "fval array2 option"
  self_b :: "rhs option"
  self_y :: "fval array2 option"
  self_x :: "sol option"

definition init :: "real array2 \<Rightarrow> bool \<Rightarrow> engine" where
  "init A0 red = \<lparr>backup = A0, reduce = red, self_A = None, self_Q = None, self_R = None,
     self_b = None, self_y = None, self_x = None\<rparr>"

subsection \<open>Householder\<close>

text \<open>
  \<open>u -= (2 * v.T @ u) / (v.T @ v) * v\<close> on a slice \<open>u\<close>: the right-hand side is
  evaluated before the slice is written.
\<close>

definition reflect :: "real list \<Rightarrow> real list \<Rightarrow> real list" where
  "reflect v u = map2 (-) u (map (\<lambda>t. (2 * dot v u) / (dot v v) * t) v)"

text \<open>The same update written to the slice \<open>c[i:]\<close> of a column \<open>c\<close>.\<close>

definition reflect_from :: "nat \<Rightarrow> real list \<Rightarrow> real list \<Rightarrow> real list" where
  "reflect_from i v c = take i c @ reflect v (drop i c)"

text \<open>The reflection vector of step i: \<open>v = a + s*c*e\<close> for \<open>a = A[i:, i]\<close>.\<close>

definition reflection_vector :: "real list \<Rightarrow> real list" where
  "reflection_vector a =
     (let c = l2_norm a; s = sign (a ! 0); e = basis_vec 0 (length a)
      in map2 (+) a (map (\<lambda>t. s * c * t) e))"

text \<open>
  One pass of the elimination loop, on the columns of the working matrix and the list
  \<open>vs\<close>: the inner loop runs over \<open>range(i, K)\<close>.
\<close>

definition eliminate_step :: "nat \<Rightarrow> real list list \<times> real list list \<Rightarrow> nat
    \<Rightarrow> real list list \<times> real list list" where
  "eliminate_step K st i =
     (let cs = fst st; vs = snd st;
          a = drop i (cs ! i);
          v = reflection_vector a
      in (if \<not> isclose0 (dot v v)
          then foldl (\<lambda>ds j. ds[j := reflect_from i v (ds ! j)]) cs [i..<K]
          else cs,
          vs @ [v]))"

definition eliminate :: "nat \<Rightarrow> real list list \<Rightarrow> real list list \<times> real list list" where
  "eliminate K cs = foldl (eliminate_step K) (cs, []) [0..<K]"

text \<open>
  The implicit construction of Q: column i of the identity, to which the reflections are
  applied in reverse; the j-th of \<open>reversed(vs)\<close> acts on the rows from \<open>K-j-1\<close>.
\<close>

definition q_column :: "nat \<Rightarrow> real list list \<Rightarrow> real list \<Rightarrow> real list" where
  "q_column K vs c =
     foldl (\<lambda>d jv. if \<not> isclose0 (dot (snd jv) (snd jv))
                    then reflect_from (K - fst jv - 1) (snd jv) d else d)
       c (enumerate 0 (rev vs))"

definition build_q :: "nat \<Rightarrow> nat \<Rightarrow> real list list \<Rightarrow> real list list" where
  "build_q M K vs = map (\<lambda>i. q_column K vs (basis_vec i M)) [0..<M]"

text \<open>
  The arrays \<open>(self.A, self.Q, self.R)\<close> that \<open>householder\<close> leaves behind, from the
  backup and the \<open>reduce\<close> flag.
\<close>

definition householder_arrays :: "bool \<Rightarrow> real array2
    \<Rightarrow> real array2 \<times> real array2 \<times> real array2" where
  "householder_arrays red A0 =
     (let M = nrows A0; N = ncols A0; K = min M N;
          (cs, vs) = eliminate K (cols A0);
          W = \<lparr>nrows = M, cols = cs\<rparr>;
          Qf = \<lparr>nrows = M, cols = build_q M K vs\<rparr>
      in if red
         then (W, \<lparr>nrows = M, cols = take K (cols Qf)\<rparr>, \<lparr>nrows = K, cols = map (take K) cs\<rparr>)
         else (W, Qf, W))"

text \<open>
  \<open>householder(ret)\<close>: the value returned (\<open>None\<close> when \<open>ret\<close> is false) and the engine
  afterwards. Every division of the method is guarded by \<open>isclose0\<close>, so its arithmetic
  stays finite and the arrays are stored through \<open>Fin\<close>.
\<close>

definition householder :: "bool \<Rightarrow> engine \<Rightarrow> (fval array2 \<times> fval array2) option \<times> engine" where
  "householder ret s =
     (let (W, Qm, Rm) = householder_arrays (reduce s) (backup s);
          s' = s\<lparr>self_A := Some (fin_array W), self_Q := Some (fin_array Qm),
                 self_R := Some (fin_array Rm)\<rparr>
      in (if ret then Some (fin_array Qm, fin_array Rm) else None, s'))"

definition decompose :: "engine \<Rightarrow> (fval array2 \<times> fval array2) option \<times> engine" where
  "decompose s = householder True s"

subsection \<open>Gram-Schmidt\<close>

definition vsub :: "fval list \<Rightarrow> fval list \<Rightarrow> fval list" where
  "vsub u v = map2 fsub u v"

text \<open>\<open>np.dot(Q.T, R)\<close> for two arrays with the same row count.\<close>

definition dot_T :: "fval array2 \<Rightarrow> fval list list \<Rightarrow> fval array2" where
  "dot_T Qm cs = \<lparr>nrows = ncols Qm, cols = map (\<lambda>c. map (\<lambda>q. fdot q c) (cols Qm)) cs\<rparr>"

text \<open>
  The body of the loop \<open>for i in range(1, N)\<close> of \<open>gram_schmidt\<close>: the projections
  onto the columns \<open>j < i\<close> are subtracted one after the other from the running column,
  which is then normalized in place.
\<close>

definition gs_step :: "fval list list \<Rightarrow> nat \<Rightarrow> fval list list" where
  "gs_step cs i =
     (let ds = foldl (\<lambda>ds j. ds[i := vsub (ds ! i) (projection (ds ! i) (ds ! j))]) cs [0..<i]
      in ds[i := normalize (ds ! i)])"

text \<open>
  \<open>gram_schmidt\<close>: the value returned and the engine afterwards. \<open>self.A[:, 0]\<close> raises
  IndexError on an array without columns, after \<open>self.A\<close> and \<open>self.R\<close> were assigned.
\<close>

definition gram_schmidt :: "engine \<Rightarrow> (error + fval array2 \<times> fval array2) \<times> engine" where
  "gram_schmidt s =
     (let A0 = fin_array (backup s); N = ncols A0;
          s1 = s\<lparr>self_A := Some A0, self_R := Some A0\<rparr>
      in if N = 0 then (Inl IndexError, s1)
         else
           (let c0 = cols A0 ! 0;
                cs0 = (cols A0)[0 := map (\<lambda>t. fdiv t (fl2_norm c0)) c0];
                cs = foldl gs_step cs0 [1..<N];
                Qm = \<lparr>nrows = nrows A0, cols = cs\<rparr>;
                Rm = dot_T Qm (cols A0)
            in (Inr (Qm, Rm),
                s\<lparr>self_A := Some Qm, self_Q := Some Qm, self_R := Some Rm\<rparr>)))"

text \<open>The body of the loop \<open>for i in range(N)\<close> of \<open>gram_schmidt_modified\<close>.\<close>

definition mgs_step :: "nat \<Rightarrow> fval list list \<Rightarrow> nat \<Rightarrow> fval list list" where
  "mgs_step N cs i =
     (let ci = cs ! i;
          ds = cs[i := map (\<lambda>t. fdiv t (fl2_norm ci)) ci]
      in foldl (\<lambda>ds j. ds[j := vsub (ds ! j) (projection (ds ! j) (ds ! i))]) ds [Suc i..<N])"

definition gram_schmidt_modified :: "engine \<Rightarrow> (fval array2 \<times> fval array2) \<times> engine" where
  "gram_schmidt_modified s =
     (let A0 = fin_array (backup s); N = ncols A0;
          cs = foldl (mgs_step N) (cols A0) [0..<N];
          Qm = \<lparr>nrows = nrows A0, cols = cs\<rparr>;
          Rm = dot_T Qm (cols A0)
      in ((Qm, Rm), s\<lparr>self_A := Some Qm, self_Q := Some Qm, self_R := Some Rm\<rparr>))"

subsection \<open>The compensated accumulator\<close>

text \<open>
  Modelled from the spec: \<open>linalg.kahan.KahanSum\<close> (imported by the source and not part
  of it). For each new term t: \<open>y = t - correction\<close>, \<open>temp = total + y\<close>, the new
  correction is \<open>(temp - total) - y\<close> and the new total is \<open>temp\<close>; \<open>result()\<close> returns
  the total, and the sum of no term is 0.
\<close>

record KahanSum =
  k_total :: fval
  k_correction :: fval

definition kahan_new :: KahanSum where
  "kahan_new = \<lparr>k_total = Fin 0, k_correction = Fin 0\<rparr>"

definition kahan_add :: "KahanSum \<Rightarrow> fval \<Rightarrow> KahanSum" where
  "kahan_add acc t =
     (let y = fsub t (k_correction acc);
          temp = fadd (k_total acc) y
      in \<lparr>k_total = temp, k_correction = fsub (fsub temp (k_total acc)) y\<rparr>)"

definition kahan_result :: "KahanSum \<Rightarrow> fval" where
  "kahan_result acc = k_total acc"

subsection \<open>Solve and back substitution\<close>

text \<open>
  \<open>np.dot(self.Q.T, self.b)\<close>, reshaped to two dimensions when it is one-dimensional:
  numpy raises ValueError unless the row count of \<open>b\<close> is that of \<open>Q\<close>.
\<close>

definition rhs_rows :: "rhs \<Rightarrow> nat" where
  "rhs_rows b = (case b of B1 v \<Rightarrow> length v | B2 X \<Rightarrow> nrows X)"

definition rhs_cols :: "rhs \<Rightarrow> real list list" where
  "rhs_cols b = (case b of B1 v \<Rightarrow> [v] | B2 X \<Rightarrow> cols X)"

definition dot_QT_b :: "fval array2 \<Rightarrow> rhs \<Rightarrow> error + fval array2" where
  "dot_QT_b Qm b =
     (if nrows Qm \<noteq> rhs_rows b then Inl ValueError
      else Inr (dot_T Qm (map (map Fin) (rhs_cols b))))"

text \<open>
  The assignment to \<open>x[i, k]\<close> in the loop \<open>for i in range(K-1, -1, -1)\<close>, on the column k
  of \<open>x\<close>: the accumulator takes the terms for \<open>j\<close> in \<open>range(K-1, i, -1)\<close>.
\<close>

definition backward_row :: "nat \<Rightarrow> fval array2 \<Rightarrow> fval list \<Rightarrow> fval list \<Rightarrow> nat \<Rightarrow> fval list" where
  "backward_row K Rm yc xc i =
     (let acc = foldl (\<lambda>acc j. kahan_add acc (fmul (entry Rm i j) (xc ! j)))
                  kahan_new (rev [Suc i..<K])
      in xc[i := fdiv (fsub (yc ! i) (kahan_result acc)) (entry Rm i i)])"

definition backward_column :: "nat \<Rightarrow> nat \<Rightarrow> fval array2 \<Rightarrow> fval list \<Rightarrow> fval list" where
  "backward_column K N Rm yc =
     foldl (backward_row K Rm yc) (replicate N (Fin 0)) (rev [0..<K])"

text \<open>\<open>x.squeeze()\<close> on an array of shape \<open>(N, 1)\<close>: every axis of length one is removed.\<close>

definition squeeze :: "fval array2 \<Rightarrow> sol" where
  "squeeze X = (if nrows X = 1 then X0 (entry X 0 0) else X1 (cols X ! 0))"

text \<open>
  \<open>_backward\<close>: reading an attribute that no method has assigned raises AttributeError.
  When \<open>np.dot\<close> raises, nothing has been assigned yet.
\<close>

definition backward :: "engine \<Rightarrow> error + engine" where
  "backward s =
     (case (self_R s, self_Q s, self_b s) of
        (Some Rm, Some Qm, Some b) \<Rightarrow>
          (let N = ncols Rm; K = min (nrows Rm) N
           in case dot_QT_b Qm b of
                Inl e \<Rightarrow> Inl e
              | Inr ym \<Rightarrow>
                  (let num_iters = (case b of B2 X \<Rightarrow> ncols X | B1 v \<Rightarrow> 1);
                       xm = \<lparr>nrows = N,
                             cols = map (\<lambda>k. backward_column K N Rm (cols ym ! k)) [0..<num_iters]\<rparr>
                   in Inr (s\<lparr>self_y := Some ym,
                              self_x := Some (case b of B1 v \<Rightarrow> squeeze xm | B2 X \<Rightarrow> X2 xm)\<rparr>)))
      | _ \<Rightarrow> Inl AttributeError)"

text \<open>\<open>solve(b)\<close>: the value returned or the error raised, and the engine afterwards.\<close>

definition solve :: "engine \<Rightarrow> rhs \<Rightarrow> (error + sol) \<times> engine" where
  "solve s b =
     (let s1 = s\<lparr>self_b := Some b\<rparr>;
          s2 = snd (householder False s1)
      in case backward s2 of
           Inl e \<Rightarrow> (Inl e, s2)
         | Inr s3 \<Rightarrow> (case self_x s3 of Some xs \<Rightarrow> (Inr xs, s3)
                       | None \<Rightarrow> (Inl AttributeError, s3)))"

section \<open>The arrays of a successful solve\<close>

text \<open>
  Names for the arrays that \<open>solve\<close> computes from the engine and \<open>b\<close>: the factors left
  by \<open>householder\<close>, \<open>y = Q.T b\<close>, and the array \<open>x\<close> before it is squeezed.
\<close>

definition solve_Q :: "engine \<Rightarrow> fval array2" where
  "solve_Q s = fin_array (fst (snd (householder_arrays (reduce s) (backup s))))"

definition solve_R :: "engine \<Rightarrow> fval array2" where
  "solve_R s = fin_array (snd (snd (householder_arrays (reduce s) (backup s))))"

definition solve_y :: "engine \<Rightarrow> rhs \<Rightarrow> fval array2" where
  "solve_y s b = dot_T (solve_Q s) (map (map Fin) (rhs_cols b))"

definition solve_x :: "engine \<Rightarrow> rhs \<Rightarrow> fval array2" where
  "solve_x s b =
     \<lparr>nrows = ncols (solve_R s),
      cols = map (\<lambda>k. backward_column (min (nrows (solve_R s)) (ncols (solve_R s)))
                        (ncols (solve_R s)) (solve_R s) (cols (solve_y s b) ! k))
               [0..<(case b of B2 X \<Rightarrow> ncols X | B1 v \<Rightarrow> 1)]\<rparr>"

text \<open>
  The value that the loop body assigns to \<open>x[i, k]\<close>, as a function of the column
  \<open>xc\<close> of \<open>x\<close> that it reads.
\<close>

definition row_value :: "nat \<Rightarrow> fval array2 \<Rightarrow> fval list \<Rightarrow> fval list \<Rightarrow> nat \<Rightarrow> fval" where
  "row_value K Rm yc xc i =
     fdiv (fsub (yc ! i)
             (kahan_result (foldl kahan_add kahan_new
                (map (\<lambda>j. fmul (entry Rm i j) (xc ! j)) (rev [Suc i..<K])))))
          (entry Rm i i)"

text \<open>The columns of a solution, whatever its number of dimensions.\<close>

definition sol_cols :: "sol \<Rightarrow> fval list list" where
  "sol_cols x = (case x of X0 v \<Rightarrow> [[v]] | X1 c \<Rightarrow> [c] | X2 X \<Rightarrow> cols X)"

section \<open>What the methods leave in the engine\<close>

lemma householder_snd:
  "snd (householder ret s) =
     s\<lparr>self_A := Some (fin_array (fst (householder_arrays (reduce s) (backup s)))),
       self_Q := Some (fin_array (fst (snd (householder_arrays (reduce s) (backup s))))),
       self_R := Some (fin_array (snd (snd (householder_arrays (reduce s) (backup s)))))\<rparr>"
  by (simp add: householder_def case_prod_beta Let_def)

lemma householder_fst:
  "fst (householder ret s) =
     (if ret then Some (fin_array (fst (snd (householder_arrays (reduce s) (backup s)))),
                        fin_array (snd (snd (householder_arrays (reduce s) (backup s)))))
      else None)"
  by (simp add: householder_def case_prod_beta Let_def)

lemma backward_backup: "backward s = Inr s' \<Longrightarrow> backup s' = backup s \<and> reduce s' = reduce s"
  by (auto simp: backward_def Let_def split: option.splits sum.splits)

lemma solve_backup: "backup (snd (solve s b)) = backup s"
  by (auto simp: solve_def Let_def householder_snd split: sum.splits option.splits
      dest: backward_backup)

text \<open>
  Claim C7. No method of the engine changes \<open>backup\<close>: after \<open>gram_schmidt\<close>,
  \<open>gram_schmidt_modified\<close>, \<open>householder\<close>, \<open>decompose\<close> and \<open>solve\<close> the engine holds
  the backup it held before; and a second call of \<open>householder()\<close> on the engine left by
  a first call returns the same \<open>(Q, R)\<close>.
\<close>

theorem backup_never_modified:
  "backup (snd (gram_schmidt s)) = backup s \<and>
   backup (snd (gram_schmidt_modified s)) = backup s \<and>
   backup (snd (householder ret s)) = backup s \<and>
   backup (snd (decompose s)) = backup s \<and>
   backup (snd (solve s b)) = backup s \<and>
   fst (householder True (snd (householder True s))) = fst (householder True s)"
  by (simp add: solve_backup householder_snd householder_fst decompose_def
      gram_schmidt_def gram_schmidt_modified_def Let_def)

lemma nrows_fin_array [simp]: "nrows (fin_array X) = nrows X"
  by (simp add: fin_array_def)

lemma ncols_fin_array [simp]: "ncols (fin_array X) = ncols X"
  by (simp add: fin_array_def ncols_def)

lemma householder_arrays_Q_nrows:
  "nrows (fst (snd (householder_arrays red A0))) = nrows A0"
  by (simp add: householder_arrays_def Let_def case_prod_beta)

lemma nrows_solve_Q [simp]: "nrows (solve_Q s) = nrows (backup s)"
  by (simp add: solve_Q_def householder_arrays_Q_nrows)

lemma solve_mismatch:
  assumes "rhs_rows b \<noteq> nrows (backup s)"
  shows "solve s b = (Inl ValueError, snd (householder False (s\<lparr>self_b := Some b\<rparr>)))"
  using assms
  by (simp add: solve_def Let_def householder_snd backward_def dot_QT_b_def
      householder_arrays_Q_nrows)

lemma solve_match:
  assumes "rhs_rows b = nrows (backup s)"
  shows "solve s b =
     (Inr (case b of B1 v \<Rightarrow> squeeze (solve_x s b) | B2 X \<Rightarrow> X2 (solve_x s b)),
      s\<lparr>self_b := Some b,
        self_A := Some (fin_array (fst (householder_arrays (reduce s) (backup s)))),
        self_Q := Some (solve_Q s), self_R := Some (solve_R s),
        self_y := Some (solve_y s b),
        self_x := Some (case b of B1 v \<Rightarrow> squeeze (solve_x s b) | B2 X \<Rightarrow> X2 (solve_x s b))\<rparr>)"
  using assms
  by (cases b) (simp_all add: solve_def Let_def householder_snd backward_def dot_QT_b_def
      householder_arrays_Q_nrows solve_Q_def solve_R_def solve_y_def solve_x_def)

section \<open>Evaluation on concrete arrays\<close>

lemmas hh_eval = householder_arrays_def eliminate_def eliminate_step_def reflection_vector_def
  l2_norm_def sign_def basis_vec_def dot_def isclose0_def reflect_from_def reflect_def
  build_q_def q_column_def ncols_def Let_def

lemmas solve_eval = solve_def householder_def backward_def dot_QT_b_def dot_T_def fin_array_def
  rhs_rows_def rhs_cols_def backward_column_def backward_row_def kahan_new_def kahan_add_def
  kahan_result_def squeeze_def entry_def fdot_def init_def

lemma sqrt_25: "sqrt 25 = 5"
  by (rule real_sqrt_unique) simp_all

text \<open>
  Claim C1. The claim has the update of step i applied to every column \<open>j \<ge> i\<close> of the
  working matrix. The inner loop of the source stops at \<open>K = min(M, N)\<close>, so on the
  1-by-2 array \<open>[[1, 1]]\<close> the only step reflects column 0 alone: \<open>R\<close> is \<open>[[-1, 1]]\<close>
  with \<open>Q = [[-1]]\<close>, where the update of column 1 would have given \<open>[[-1, -1]]\<close>.
\<close>

theorem householder_wide_skips_columns:
  "fst (householder True (init \<lparr>nrows = 1, cols = [[1], [1]]\<rparr> False)) =
     Some (\<lparr>nrows = 1, cols = [[Fin (- 1)]]\<rparr>, \<lparr>nrows = 1, cols = [[Fin (- 1)], [Fin 1]]\<rparr>)"
  by (simp add: solve_eval hh_eval)

text \<open>
  Claim C9. For the 1-by-1 array \<open>[[2]]\<close> and the one-dimensional \<open>b = [4]\<close>, \<open>solve\<close>
  returns the zero-dimensional array of value 2 (\<open>squeeze\<close> removes both axes of the
  1-by-1 \<open>x\<close>), not a vector of one element.
\<close>

theorem solve_scalar_system_is_0d:
  "fst (solve (init \<lparr>nrows = 1, cols = [[2]]\<rparr> False) (B1 [4])) = Inr (X0 (Fin 2))"
  by (simp add: solve_eval hh_eval)

text \<open>
  Claim C6, as stated, fails: with the 1-by-1 array \<open>[[2]]\<close> and a \<open>b\<close> of two rows,
  \<open>solve\<close> raises, but the engine is left with the factorization (\<open>A\<close>, \<open>Q\<close>, \<open>R\<close>) and
  with \<open>b\<close>, none of which it had before the call.
\<close>

theorem solve_mismatch_mutates_engine:
  "solve (init \<lparr>nrows = 1, cols = [[2]]\<rparr> False) (B1 [4, 6]) =
   (Inl ValueError,
    \<lparr>backup = \<lparr>nrows = 1, cols = [[2]]\<rparr>, reduce = False,
     self_A = Some \<lparr>nrows = 1, cols = [[Fin (- 2)]]\<rparr>,
     self_Q = Some \<lparr>nrows = 1, cols = [[Fin (- 1)]]\<rparr>,
     self_R = Some \<lparr>nrows = 1, cols = [[Fin (- 2)]]\<rparr>,
     self_b = Some (B1 [4, 6]), self_y = None, self_x = None\<rparr>) \<and>
   snd (solve (init \<lparr>nrows = 1, cols = [[2]]\<rparr> False) (B1 [4, 6])) \<noteq>
     init \<lparr>nrows = 1, cols = [[2]]\<rparr> False"
  by (simp add: solve_eval hh_eval)

text \<open>
  Claim C6, amended. For every \<open>b\<close> whose row count differs from the row count of \<open>A\<close>,
  \<open>solve(b)\<close> fails with the ValueError that \<open>np.dot\<close> raises, after the Householder
  factorization has run: the engine then holds \<open>b\<close> and the new \<open>A\<close>, \<open>Q\<close> and \<open>R\<close>, and
  its other attributes (\<open>backup\<close>, \<open>reduce\<close>, \<open>y\<close>, \<open>x\<close>) are those from before the call.
\<close>

theorem solve_mismatch_fails_after_factorization:
  assumes "rhs_rows b \<noteq> nrows (backup s)"
  shows "fst (solve s b) = Inl ValueError \<and>
         snd (solve s b) =
           s\<lparr>self_b := Some b,
             self_A := Some (fin_array (fst (householder_arrays (reduce s) (backup s)))),
             self_Q := Some (fin_array (fst (snd (householder_arrays (reduce s) (backup s))))),
             self_R := Some (fin_array (snd (snd (householder_arrays (reduce s) (backup s)))))\<rparr>"
  using assms by (simp add: solve_mismatch householder_snd)

theorem solve_mismatch_fails_after_factorization_witness:
  "rhs_rows (B1 [4, 6]) \<noteq> nrows (backup (init \<lparr>nrows = 1, cols = [[2]]\<rparr> False)) \<and>
   fst (solve (init \<lparr>nrows = 1, cols = [[2]]\<rparr> False) (B1 [4, 6])) = Inl ValueError \<and>
   self_R (snd (solve (init \<lparr>nrows = 1, cols = [[2]]\<rparr> False) (B1 [4, 6]))) =
     Some \<lparr>nrows = 1, cols = [[Fin (- 2)]]\<rparr>"
proof -
  have h: "rhs_rows (B1 [4, 6]) \<noteq> nrows (backup (init \<lparr>nrows = 1, cols = [[2]]\<rparr> False))"
    by (simp add: rhs_rows_def init_def)
  from solve_mismatch_fails_after_factorization [OF h] h show ?thesis
    by (simp add: init_def hh_eval fin_array_def)
qed

lemma length_backward_row [simp]: "length (backward_row K Rm yc xc i) = length xc"
  by (simp add: backward_row_def Let_def)

lemma length_foldl_backward_row [simp]:
  "length (foldl (backward_row K Rm yc) xc is) = length xc"
  by (induction "is" arbitrary: xc) simp_all

lemma backward_row_other: "j \<noteq> i \<Longrightarrow> backward_row K Rm yc xc i ! j = xc ! j"
  by (simp add: backward_row_def Let_def)

lemma foldl_backward_row_other:
  "j \<notin> set is \<Longrightarrow> foldl (backward_row K Rm yc) xc is ! j = xc ! j"
  by (induction "is" arbitrary: xc) (simp_all add: backward_row_other)

lemma length_backward_column [simp]: "length (backward_column K N Rm yc) = N"
  by (simp add: backward_column_def)

lemma backward_column_tail:
  assumes "K \<le> i" "i < N"
  shows "backward_column K N Rm yc ! i = Fin 0"
  using assms by (simp add: backward_column_def foldl_backward_row_other)

lemma backward_row_eq: "backward_row K Rm yc xc i = xc[i := row_value K Rm yc xc i]"
  by (simp add: backward_row_def row_value_def Let_def foldl_map)

lemma row_value_cong:
  assumes "\<And>j. i < j \<Longrightarrow> j < K \<Longrightarrow> xc ! j = xc' ! j"
  shows "row_value K Rm yc xc i = row_value K Rm yc xc' i"
proof -
  have h: "map (\<lambda>j. fmul (entry Rm i j) (xc ! j)) (rev [Suc i..<K]) =
        map (\<lambda>j. fmul (entry Rm i j) (xc' ! j)) (rev [Suc i..<K])"
    using assms by (intro map_cong) auto
  show ?thesis by (simp only: row_value_def h)
qed

lemma foldl_backward_rows:
  assumes "n \<le> length xc"
  shows "(\<forall>i<n. foldl (backward_row K Rm yc) xc (rev [0..<n]) ! i =
            row_value K Rm yc (foldl (backward_row K Rm yc) xc (rev [0..<n])) i)"
  using assms
proof (induction n arbitrary: xc)
  case 0
  then show ?case by simp
next
  case (Suc n)
  let ?x1 = "backward_row K Rm yc xc n"
  let ?r = "foldl (backward_row K Rm yc) ?x1 (rev [0..<n])"
  have r: "foldl (backward_row K Rm yc) xc (rev [0..<Suc n]) = ?r" by simp
  have keep: "\<And>j. n \<le> j \<Longrightarrow> ?r ! j = ?x1 ! j"
    by (rule foldl_backward_row_other) simp
  have ih: "\<forall>i<n. ?r ! i = row_value K Rm yc ?r i"
    using Suc.IH [of ?x1] Suc.prems by simp
  have "?r ! n = ?x1 ! n" using keep by simp
  also have "\<dots> = row_value K Rm yc xc n"
    using Suc.prems by (simp add: backward_row_eq)
  also have "\<dots> = row_value K Rm yc ?r n"
  proof (rule row_value_cong)
    fix j assume "n < j" "j < K"
    then show "xc ! j = ?r ! j" using keep [of j] by (simp add: backward_row_other)
  qed
  finally have "?r ! n = row_value K Rm yc ?r n" .
  with ih show ?case unfolding r by (auto simp: less_Suc_eq)
qed

lemma backward_column_row:
  assumes "i < K" "K \<le> N"
  shows "backward_column K N Rm yc ! i = row_value K Rm yc (backward_column K N Rm yc) i"
  using foldl_backward_rows [of K "replicate N (Fin 0)" K Rm yc] assms
  by (simp add: backward_column_def)

lemma length_foldl_update [simp]:
  "length (foldl (\<lambda>ds j. ds[j := f ds j]) cs js) = length cs"
  by (induction js arbitrary: cs) simp_all

lemma eliminate_step_length [simp]:
  "length (fst (eliminate_step K st i)) = length (fst st)"
  by (simp add: eliminate_step_def Let_def)

lemma foldl_eliminate_step_length [simp]:
  "length (fst (foldl (eliminate_step K) st is)) = length (fst st)"
  by (induction "is" arbitrary: st) simp_all

lemma eliminate_length [simp]: "length (fst (eliminate K cs)) = length cs"
  by (simp add: eliminate_def)

lemma householder_arrays_R:
  "snd (snd (householder_arrays red A0)) =
     (if red
      then \<lparr>nrows = min (nrows A0) (ncols A0),
            cols = map (take (min (nrows A0) (ncols A0)))
                     (fst (eliminate (min (nrows A0) (ncols A0)) (cols A0)))\<rparr>
      else \<lparr>nrows = nrows A0, cols = fst (eliminate (min (nrows A0) (ncols A0)) (cols A0))\<rparr>)"
  by (simp add: householder_arrays_def Let_def case_prod_beta)

lemma householder_arrays_Q:
  "fst (snd (householder_arrays red A0)) =
     \<lparr>nrows = nrows A0,
      cols = (if red then take (min (nrows A0) (ncols A0)) else (\<lambda>q. q))
               (build_q (nrows A0) (min (nrows A0) (ncols A0))
                  (snd (eliminate (min (nrows A0) (ncols A0)) (cols A0))))\<rparr>"
  by (simp add: householder_arrays_def Let_def case_prod_beta)

lemma ncols_solve_R [simp]: "ncols (solve_R s) = ncols (backup s)"
  by (simp add: solve_R_def householder_arrays_R ncols_def fin_array_def)

lemma min_shape_solve_R [simp]:
  "min (nrows (solve_R s)) (ncols (backup s)) = min (nrows (backup s)) (ncols (backup s))"
  by (simp add: solve_R_def householder_arrays_R)

lemma cols_solve_x:
  "cols (solve_x s b) =
     map (\<lambda>k. backward_column (min (nrows (backup s)) (ncols (backup s))) (ncols (backup s))
                 (solve_R s) (cols (solve_y s b) ! k))
       [0..<length (rhs_cols b)]"
  by (cases b) (simp_all add: solve_x_def rhs_cols_def ncols_def [symmetric])

lemma nrows_solve_x [simp]: "nrows (solve_x s b) = ncols (backup s)"
  by (simp add: solve_x_def)

lemma singleton_nth: "length xs = 1 \<Longrightarrow> [xs ! 0] = xs"
  by (cases xs) simp_all

lemma sol_cols_solve:
  "sol_cols (case b of B1 v \<Rightarrow> squeeze (solve_x s b) | B2 X \<Rightarrow> X2 (solve_x s b)) =
     cols (solve_x s b)"
proof (cases b)
  case (B1 v)
  let ?c = "backward_column (min (nrows (backup s)) (ncols (backup s))) (ncols (backup s))
              (solve_R s) (cols (solve_y s b) ! 0)"
  have c: "cols (solve_x s b) = [?c]" using B1 by (simp add: cols_solve_x rhs_cols_def)
  have "ncols (backup s) = 1 \<Longrightarrow> [?c ! 0] = ?c"
    by (rule singleton_nth) simp
  then show ?thesis using B1 c
    by (auto simp: sol_cols_def squeeze_def entry_def)
next
  case (B2 X)
  then show ?thesis by (simp add: sol_cols_def)
qed

text \<open>
  Claim C10. For an underdetermined \<open>A\<close> (\<open>M < N\<close>) and every right-hand side whose row
  count is \<open>M\<close>, \<open>solve\<close> returns a solution with one column per column of \<open>b\<close>, each of
  \<open>N\<close> rows, whose rows \<open>M..N-1\<close> are exactly zero: back substitution assigns the rows
  below \<open>K = M\<close> only.
\<close>

theorem underdetermined_tail_rows_zero:
  assumes "nrows (backup s) < ncols (backup s)" and "rhs_rows b = nrows (backup s)"
  shows "\<exists>x. fst (solve s b) = Inr x \<and> length (sol_cols x) = length (rhs_cols b) \<and>
           (\<forall>c \<in> set (sol_cols x). length c = ncols (backup s) \<and>
              (\<forall>i. nrows (backup s) \<le> i \<and> i < ncols (backup s) \<longrightarrow> c ! i = Fin 0))"
proof -
  let ?x = "case b of B1 v \<Rightarrow> squeeze (solve_x s b) | B2 X \<Rightarrow> X2 (solve_x s b)"
  have "fst (solve s b) = Inr ?x" using assms(2) by (simp add: solve_match)
  moreover have "length (sol_cols ?x) = length (rhs_cols b)"
    by (simp add: sol_cols_solve cols_solve_x)
  moreover have "\<forall>c \<in> set (sol_cols ?x). length c = ncols (backup s) \<and>
      (\<forall>i. nrows (backup s) \<le> i \<and> i < ncols (backup s) \<longrightarrow> c ! i = Fin 0)"
    using assms(1) by (auto simp: sol_cols_solve cols_solve_x backward_column_tail)
  ultimately show ?thesis by blast
qed

end
